theory Spec2Isabelle
  imports Complex_Main "HOL-Library.AList"
begin

section \<open>Values, exceptions and files\<close>

text \<open>
  The pipeline of \<^verbatim>\<open>scripts/wasl_processor.py\<close> reads JSON with \<^verbatim>\<open>json.load\<close>.
  A field of a raw annotation record is any scalar JSON value: \<^verbatim>\<open>None\<close>, a bool, a
  number or a str. A number stands for its exact value (Python compares ints and
  finite floats exactly); NaN and the infinities are left out.
\<close>

datatype jvalue = JNull | JBool bool | JNum rat | JStr string

text \<open>The exceptions that the modelled code raises or lets through.\<close>

datatype error =
    FileNotFoundError
  | JSONDecodeError
  | TypeError
  | OSError
  | CalledProcessError int
  | DownloadError
  | ClipError

text \<open>
  A file that a function opens for reading: it is missing, or it exists and
  \<^verbatim>\<open>json.load\<close> either fails on it or returns a value.
\<close>

datatype 'a file_state = Missing | Garbled | Holds 'a

text \<open>A dict with str keys, as \<^verbatim>\<open>json.load\<close> builds it from a JSON object.\<close>

type_synonym pydict = "string \<rightharpoonup> jvalue"

text \<open>\<^verbatim>\<open>d.get(key, default)\<close>\<close>

definition dict_get :: "pydict \<Rightarrow> string \<Rightarrow> jvalue \<Rightarrow> jvalue" where
  "dict_get d k dflt = (case d k of None \<Rightarrow> dflt | Some v \<Rightarrow> v)"

text \<open>Truth value testing (\<^verbatim>\<open>not x\<close>, \<^verbatim>\<open>x and y\<close>).\<close>

fun truthy :: "jvalue \<Rightarrow> bool" where
  "truthy JNull = False"
| "truthy (JBool b) = b"
| "truthy (JNum r) = (r \<noteq> 0)"
| "truthy (JStr s) = (s \<noteq> [])"

text \<open>A bool is an int in Python: \<^verbatim>\<open>True\<close> is 1 and \<^verbatim>\<open>False\<close> is 0.\<close>

fun as_number :: "jvalue \<Rightarrow> rat option" where
  "as_number (JBool b) = Some (if b then 1 else 0)"
| "as_number (JNum r) = Some r"
| "as_number JNull = None"
| "as_number (JStr s) = None"

text \<open>Strings are ordered lexicographically, character code by character code.\<close>

fun str_lt :: "string \<Rightarrow> string \<Rightarrow> bool" where
  "str_lt [] [] = False"
| "str_lt [] (d # t) = True"
| "str_lt (c # s) [] = False"
| "str_lt (c # s) (d # t) =
     (if (of_char c :: nat) < of_char d then True
      else if (of_char d :: nat) < of_char c then False
      else str_lt s t)"

text \<open>
  \<^verbatim>\<open>a < b\<close>: defined between two numbers and between two strs; every other pair of
  scalars raises \<^verbatim>\<open>TypeError\<close>.
\<close>

fun py_lt :: "jvalue \<Rightarrow> jvalue \<Rightarrow> error + bool" where
  "py_lt (JStr s) (JStr t) = Inr (str_lt s t)"
| "py_lt a b =
     (case (as_number a, as_number b) of
        (Some x, Some y) \<Rightarrow> Inr (x < y)
      | _ \<Rightarrow> Inl TypeError)"

section \<open>Metadata normalisation: \<^verbatim>\<open>_process_WASL_structure\<close>\<close>

text \<open>
  The loop over \<^verbatim>\<open>annotations\<close> (lines 103 to 120). \<^verbatim>\<open>metadata\<close> is the list built
  so far. A record without a truthy \<^verbatim>\<open>video_id\<close> is skipped by \<^verbatim>\<open>continue\<close>;
  \<^verbatim>\<open>word and start_time < end_time\<close> evaluates the comparison only when \<^verbatim>\<open>word\<close>
  is truthy, and the comparison may raise.
\<close>

fun normalize_loop :: "pydict list \<Rightarrow> pydict list \<Rightarrow> error + pydict list" where
  "normalize_loop [] metadata = Inr metadata"
| "normalize_loop (entry # rest) metadata =
     (let video_id = dict_get entry ''video_id'' JNull in
      if \<not> truthy video_id then normalize_loop rest metadata
      else
        let word = dict_get entry ''word'' (JStr '''');
            start_time = dict_get entry ''start_time'' (JNum 0);
            end_time = dict_get entry ''end_time'' (JNum 0)
        in if \<not> truthy word then normalize_loop rest metadata
           else (case py_lt start_time end_time of
                   Inl e \<Rightarrow> Inl e
                 | Inr keep \<Rightarrow>
                     if keep then
                       normalize_loop rest
                         (metadata @
                           [[''video_id'' \<mapsto> video_id, ''word'' \<mapsto> word,
                             ''start_time'' \<mapsto> start_time, ''end_time'' \<mapsto> end_time]])
                     else normalize_loop rest metadata))"

text \<open>
  The whole function. \<^verbatim>\<open>wasl_dir_exists\<close> says whether \<^verbatim>\<open>raw/WASL\<close> exists,
  \<^verbatim>\<open>annotations_file\<close> is the state of \<^verbatim>\<open>annotations.json\<close> in it, and
  \<^verbatim>\<open>metadata_writable\<close> says whether \<^verbatim>\<open>wasl_metadata.json\<close> can be opened for
  writing. The result is the list that \<^verbatim>\<open>json.dump\<close> writes there.
\<close>

definition process_WASL_structure ::
  "bool \<Rightarrow> pydict list file_state \<Rightarrow> bool \<Rightarrow> error + pydict list" where
  "process_WASL_structure wasl_dir_exists annotations_file metadata_writable =
     (if \<not> wasl_dir_exists then Inl FileNotFoundError
      else (case annotations_file of
              Missing \<Rightarrow> Inl FileNotFoundError
            | Garbled \<Rightarrow> Inl JSONDecodeError
            | Holds annotations \<Rightarrow>
                (case normalize_loop annotations [] of
                   Inl e \<Rightarrow> Inl e
                 | Inr metadata \<Rightarrow>
                     if metadata_writable then Inr metadata else Inl OSError)))"

text \<open>
  The record as the specification types it: \<^verbatim>\<open>video_id\<close> and \<^verbatim>\<open>word\<close> are strs
  (or \<^verbatim>\<open>null\<close>) and the two times are numbers, each of them possibly absent.
\<close>

definition absent_or_str :: "jvalue option \<Rightarrow> bool" where
  "absent_or_str f =
     (case f of None \<Rightarrow> True | Some JNull \<Rightarrow> True | Some (JStr s) \<Rightarrow> True | Some _ \<Rightarrow> False)"

definition absent_or_num :: "jvalue option \<Rightarrow> bool" where
  "absent_or_num f = (case f of None \<Rightarrow> True | Some (JNum r) \<Rightarrow> True | Some _ \<Rightarrow> False)"

definition well_typed :: "pydict \<Rightarrow> bool" where
  "well_typed entry =
     (absent_or_str (entry ''video_id'') \<and> absent_or_str (entry ''word'') \<and>
      absent_or_num (entry ''start_time'') \<and> absent_or_num (entry ''end_time''))"

text \<open>
  The specification's rule, in its words: the text of a str field (empty when absent)
  and the value of a time (0 when absent); a record is kept iff \<^verbatim>\<open>video_id\<close> and
  \<^verbatim>\<open>word\<close> are non-empty and \<^verbatim>\<open>start_time < end_time\<close>.
\<close>

definition str_field :: "pydict \<Rightarrow> string \<Rightarrow> string" where
  "str_field entry k = (case entry k of Some (JStr s) \<Rightarrow> s | _ \<Rightarrow> [])"

definition time_field :: "pydict \<Rightarrow> string \<Rightarrow> rat" where
  "time_field entry k = (case entry k of Some (JNum r) \<Rightarrow> r | _ \<Rightarrow> 0)"

definition spec_keeps :: "pydict \<Rightarrow> bool" where
  "spec_keeps entry =
     (str_field entry ''video_id'' \<noteq> [] \<and> str_field entry ''word'' \<noteq> [] \<and>
      time_field entry ''start_time'' < time_field entry ''end_time'')"

definition spec_canonical :: "pydict \<Rightarrow> pydict" where
  "spec_canonical entry =
     [''video_id'' \<mapsto> JStr (str_field entry ''video_id''),
      ''word'' \<mapsto> JStr (str_field entry ''word''),
      ''start_time'' \<mapsto> JNum (time_field entry ''start_time''),
      ''end_time'' \<mapsto> JNum (time_field entry ''end_time'')]"

section \<open>The processor object\<close>

text \<open>
  The canonical metadata artifact has the schema
  \<^verbatim>\<open>[{video_id, word, start_time, end_time}, ...]\<close>; the stages after normalisation
  read entries of that shape.
\<close>

record entry =
  video_id :: string
  word :: string
  start_time :: rat
  end_time :: rat

text \<open>
  \<^verbatim>\<open>self.metadata_cache\<close> is the empty dict \<^verbatim>\<open>{}\<close> after \<^verbatim>\<open>__init__\<close> and the list
  that \<^verbatim>\<open>json.load\<close> returned after a load.
\<close>

datatype metadata_cache = EmptyDict | EntryList "entry list"

record processor =
  output_dir :: string
  videos_dir :: string
  pose_dir :: string
  metadata_dir :: string
  raw_data_dir :: string
  openpose_path :: string
  metadata_cache :: metadata_cache

text \<open>\<^verbatim>\<open>Path / name\<close>, for a relative name.\<close>

definition slash :: "string \<Rightarrow> string \<Rightarrow> string" where
  "slash d n = d @ ''/'' @ n"

text \<open>\<^verbatim>\<open>WASLProcessor.__init__\<close> (the directories it creates are not modelled).\<close>

definition WASLProcessor :: "string \<Rightarrow> processor" where
  "WASLProcessor out =
     \<lparr> output_dir = out,
       videos_dir = slash out ''videos'',
       pose_dir = slash out ''poses'',
       metadata_dir = slash out ''metadata'',
       raw_data_dir = slash out ''raw'',
       openpose_path = ''path/to/openpose'',
       metadata_cache = EmptyDict \<rparr>"

text \<open>The calls of \<^verbatim>\<open>logger\<close>, each with the values it formats.\<close>

datatype log_record =
    NoMetadataFound string
  | ErrorDownloading string error
  | Processed string
  | ErrorProcessing string error

section \<open>Timestamp index: \<^verbatim>\<open>_get_word_timestamps\<close>\<close>

text \<open>
  \<^verbatim>\<open>video_id not in self.metadata_cache\<close> compares a str with the members of the
  cache. On a dict \<^verbatim>\<open>in\<close> looks for a key, and \<^verbatim>\<open>{}\<close> has none; on a list it looks
  for an element that is \<^verbatim>\<open>==\<close> to the str, and the elements are the entry dicts.
\<close>

datatype pyobject = Str string | Dict entry

fun py_eq :: "pyobject \<Rightarrow> pyobject \<Rightarrow> bool" where
  "py_eq (Str s) (Str t) = (s = t)"
| "py_eq (Dict d) (Dict e) = (d = e)"
| "py_eq (Str s) (Dict e) = False"
| "py_eq (Dict d) (Str t) = False"

fun py_in :: "pyobject \<Rightarrow> metadata_cache \<Rightarrow> bool" where
  "py_in x EmptyDict = False"
| "py_in x (EntryList entries) = list_ex (\<lambda>entry. py_eq (Dict entry) x) entries"

text \<open>
  The loop of lines 149 to 154. A dict keeps its keys in the order of their first
  insertion, and assigning to a key that is there replaces its value in place:
  \<^const>\<open>AList.update\<close>.
\<close>

type_synonym word_timestamps = "(string \<times> rat \<times> rat) list"

fun build_word_timestamps :: "entry list \<Rightarrow> word_timestamps \<Rightarrow> word_timestamps" where
  "build_word_timestamps [] word_timestamps = word_timestamps"
| "build_word_timestamps (entry # rest) word_timestamps =
     build_word_timestamps rest
       (AList.update (word entry) (start_time entry, end_time entry) word_timestamps)"

text \<open>
  Lines 140 to 156, on the cache as it is after the load. Iterating over the empty
  dict gives no entry.
\<close>

definition lookup_video ::
  "metadata_cache \<Rightarrow> string \<Rightarrow> word_timestamps \<times> log_record list" where
  "lookup_video cache video_id' =
     (let video_entries =
            (case cache of
               EmptyDict \<Rightarrow> []
             | EntryList entries \<Rightarrow> filter (\<lambda>entry. video_id entry = video_id') entries)
      in if video_entries = [] then ([], [NoMetadataFound video_id'])
         else (build_word_timestamps video_entries [], []))"

text \<open>
  The outcome of one call: what it returns or raises, the processor afterwards, how
  many times it opened \<^verbatim>\<open>wasl_metadata.json\<close> for reading, and what it logged.
\<close>

record call_outcome =
  returned :: "error + word_timestamps"
  self_after :: processor
  file_reads :: nat
  logged :: "log_record list"

text \<open>
  \<^verbatim>\<open>_get_word_timestamps(self, video_id)\<close>; \<open>video_id'\<close> is the argument \<^verbatim>\<open>video_id\<close> and
  \<^verbatim>\<open>metadata_file\<close> the state of \<^verbatim>\<open>wasl_metadata.json\<close> at the time of the call.
\<close>

definition get_word_timestamps ::
  "processor \<Rightarrow> entry list file_state \<Rightarrow> string \<Rightarrow> call_outcome" where
  "get_word_timestamps self metadata_file video_id' =
     (if \<not> py_in (Str video_id') (metadata_cache self) then
        (case metadata_file of
           Missing \<Rightarrow>
             \<lparr> returned = Inl FileNotFoundError, self_after = self,
               file_reads = 0, logged = [] \<rparr>
         | Garbled \<Rightarrow>
             \<lparr> returned = Inl JSONDecodeError, self_after = self,
               file_reads = 1, logged = [] \<rparr>
         | Holds entries \<Rightarrow>
             (let self' = self\<lparr> metadata_cache := EntryList entries \<rparr>;
                  (word_timestamps, warnings) = lookup_video (metadata_cache self') video_id'
              in \<lparr> returned = Inr word_timestamps, self_after = self',
                   file_reads = 1, logged = warnings \<rparr>))
      else
        (let (word_timestamps, warnings) = lookup_video (metadata_cache self) video_id'
         in \<lparr> returned = Inr word_timestamps, self_after = self,
              file_reads = 0, logged = warnings \<rparr>))"

text \<open>
  A process that calls \<^verbatim>\<open>_get_word_timestamps\<close> for each video of a list in turn, as
  the loop of \<^verbatim>\<open>process_dataset\<close> does, with the metadata file left as it is: the
  number of times the file is opened for reading, up to and including the first
  call that raises.
\<close>

fun total_file_reads :: "processor \<Rightarrow> entry list file_state \<Rightarrow> string list \<Rightarrow> nat" where
  "total_file_reads self metadata_file [] = 0"
| "total_file_reads self metadata_file (video_id' # vids) =
     (let out = get_word_timestamps self metadata_file video_id'
      in file_reads out +
         (case returned out of
            Inl e \<Rightarrow> 0
          | Inr word_timestamps \<Rightarrow> total_file_reads (self_after out) metadata_file vids))"

section \<open>Video acquisition: \<^verbatim>\<open>download_wasl_videos\<close> and \<^verbatim>\<open>get_WLASL.py\<close>\<close>

text \<open>
  What the download touches: the paths that exist on disk, the URLs handed to the
  external fetch so far, in order, and the log.
\<close>

record net_world =
  files :: "string set"
  fetched :: "string list"
  net_log :: "log_record list"

text \<open>
  The external fetch (\<^verbatim>\<open>ydl.download([url])\<close>, \<^verbatim>\<open>urllib.request.urlretrieve\<close>) is
  a parameter: from its arguments and the world at the call it returns the
  exception it raises, if any, and the paths that exist afterwards. With the output
  template \<^verbatim>\<open>'%(id)s.%(ext)s'\<close> the downloader chooses the extension of the file it
  saves.
\<close>

type_synonym fetcher = "string \<Rightarrow> net_world \<Rightarrow> error option \<times> string set"

text \<open>The body of the loop of \<^verbatim>\<open>download_wasl_videos\<close> (lines 174 to 179).\<close>

definition download_entry :: "fetcher \<Rightarrow> processor \<Rightarrow> net_world \<Rightarrow> entry \<Rightarrow> net_world" where
  "download_entry ydl_download self w entry =
     (let video_id' = video_id entry in
      if slash (videos_dir self) (video_id' @ ''.mp4'') \<notin> files w then
        (let url = ''https://www.youtube.com/watch?v='' @ video_id';
             (raised, files') = ydl_download url w;
             w' = w\<lparr> files := files', fetched := fetched w @ [url] \<rparr>
         in case raised of
              None \<Rightarrow> w'
            | Some e \<Rightarrow> w'\<lparr> net_log := net_log w' @ [ErrorDownloading video_id' e] \<rparr>)
      else w)"

fun download_loop :: "fetcher \<Rightarrow> processor \<Rightarrow> net_world \<Rightarrow> entry list \<Rightarrow> net_world" where
  "download_loop ydl_download self w [] = w"
| "download_loop ydl_download self w (entry # rest) =
     download_loop ydl_download self (download_entry ydl_download self w entry) rest"

definition download_wasl_videos ::
  "fetcher \<Rightarrow> processor \<Rightarrow> entry list file_state \<Rightarrow> net_world \<Rightarrow> (error + unit) \<times> net_world" where
  "download_wasl_videos ydl_download self wasl_metadata_file w =
     (case wasl_metadata_file of
        Missing \<Rightarrow> (Inl FileNotFoundError, w)
      | Garbled \<Rightarrow> (Inl JSONDecodeError, w)
      | Holds metadata \<Rightarrow> (Inr (), download_loop ydl_download self w metadata))"

text \<open>
  \<^verbatim>\<open>get_WLASL.py\<close>: a sample of the dataset (\<^verbatim>\<open>instance_id\<close> is the text that the
  f-string puts for it) and the body of its loop (lines 18 to 28). A failed
  download is printed, not logged.
\<close>

record sample =
  gloss :: string
  video :: string
  instance_id :: string

definition fetch_sample :: "fetcher \<Rightarrow> net_world \<Rightarrow> sample \<Rightarrow> net_world" where
  "fetch_sample urlretrieve w sample =
     (let out_path = ''data/raw_videos/'' @ gloss sample @ ''_'' @ instance_id sample @ ''.mp4'' in
      if out_path \<notin> files w then
        (let url = video sample;
             (raised, files') = urlretrieve url w
         in w\<lparr> files := files', fetched := fetched w @ [url] \<rparr>)
      else w)"

section \<open>Clip segmentation: \<^verbatim>\<open>split_video_into_words\<close>\<close>

text \<open>A \<^verbatim>\<open>pathlib.Path\<close> by its parts; \<^verbatim>\<open>str(path)\<close> puts them together.\<close>

record path =
  parent :: string
  stem :: string
  suffix :: string

definition str :: "path \<Rightarrow> string" where
  "str p = slash (parent p) (stem p @ suffix p)"

text \<open>
  The calls into moviepy are parameters; each returns the exception it raises, if
  any: opening the source video, cutting the interval, encoding the clip to the
  output path.
\<close>

record moviepy =
  VideoFileClip :: "string \<Rightarrow> error option"
  subclip :: "rat \<Rightarrow> rat \<Rightarrow> error option"
  write_videofile :: "string \<Rightarrow> error option"

text \<open>
  What segmentation leaves behind: the source videos that are open, the words whose
  clip has been attempted, and the clip files written.
\<close>

record video_io =
  open_videos :: "string list"
  attempted :: "string list"
  written :: "string list"

text \<open>
  The loop of lines 186 to 190 over \<^verbatim>\<open>word_timestamps.items()\<close>. Nothing catches an
  exception of \<^verbatim>\<open>subclip\<close> or \<^verbatim>\<open>write_videofile\<close>: it leaves the loop and the
  function.
\<close>

fun split_loop ::
  "moviepy \<Rightarrow> processor \<Rightarrow> path \<Rightarrow> word_timestamps \<Rightarrow> (string \<times> string) list \<Rightarrow> video_io
     \<Rightarrow> (error + (string \<times> string) list) \<times> video_io" where
  "split_loop mp self video_path [] word_clips io = (Inr word_clips, io)"
| "split_loop mp self video_path ((word', start, end') # rest) word_clips io =
     (let io1 = io\<lparr> attempted := attempted io @ [word'] \<rparr> in
      case subclip mp start end' of
        Some e \<Rightarrow> (Inl e, io1)
      | None \<Rightarrow>
          (let output_path = slash (videos_dir self) (stem video_path @ ''_'' @ word' @ ''.mp4'') in
           case write_videofile mp output_path of
             Some e \<Rightarrow> (Inl e, io1)
           | None \<Rightarrow>
               split_loop mp self video_path rest (word_clips @ [(word', output_path)])
                 (io1\<lparr> written := written io1 @ [output_path] \<rparr>)))"

text \<open>
  The function: \<^verbatim>\<open>video.close()\<close> (line 192) is the statement after the loop, so it
  runs when the loop ends without an exception.
\<close>

definition split_video_into_words ::
  "moviepy \<Rightarrow> processor \<Rightarrow> path \<Rightarrow> word_timestamps \<Rightarrow> video_io
     \<Rightarrow> (error + (string \<times> string) list) \<times> video_io" where
  "split_video_into_words mp self video_path word_timestamps io =
     (case VideoFileClip mp (str video_path) of
        Some e \<Rightarrow> (Inl e, io)
      | None \<Rightarrow>
          (let io1 = io\<lparr> open_videos := open_videos io @ [str video_path] \<rparr> in
           case split_loop mp self video_path word_timestamps [] io1 of
             (Inl e, io2) \<Rightarrow> (Inl e, io2)
           | (Inr word_clips, io2) \<Rightarrow>
               (Inr word_clips,
                io2\<lparr> open_videos := remove1 (str video_path) (open_videos io2) \<rparr>)))"

section \<open>Pose extraction: \<^verbatim>\<open>process_with_openpose\<close>\<close>

text \<open>
  \<^verbatim>\<open>subprocess.run(cmd, check=True)\<close>: the process runs and exits with a status, or
  it cannot be started and \<^verbatim>\<open>run\<close> raises (\<^verbatim>\<open>FileNotFoundError\<close> for a missing
  executable). With \<^verbatim>\<open>check=True\<close> a non-zero status raises
  \<^verbatim>\<open>CalledProcessError\<close>.
\<close>

datatype launch = Exited int | NotStarted error

definition subprocess_run_check :: "(string list \<Rightarrow> launch) \<Rightarrow> string list \<Rightarrow> error + unit" where
  "subprocess_run_check os cmd =
     (case os cmd of
        Exited status \<Rightarrow> if status = 0 then Inr () else Inl (CalledProcessError status)
      | NotStarted e \<Rightarrow> Inl e)"

definition openpose_cmd :: "processor \<Rightarrow> path \<Rightarrow> string list" where
  "openpose_cmd self video_path =
     [slash (openpose_path self) ''build/examples/openpose/openpose.bin'',
      ''--video'', str video_path,
      ''--write_json'', pose_dir self,
      ''--display'', ''0'',
      ''--render_pose'', ''0'']"

text \<open>
  The \<^verbatim>\<open>except\<close> clause names \<^verbatim>\<open>subprocess.CalledProcessError\<close> only; any other
  exception of \<^verbatim>\<open>subprocess.run\<close> leaves the function.
\<close>

definition process_with_openpose ::
  "(string list \<Rightarrow> launch) \<Rightarrow> processor \<Rightarrow> path \<Rightarrow> log_record list
     \<Rightarrow> (error + unit) \<times> log_record list" where
  "process_with_openpose os self video_path lg =
     (case subprocess_run_check os (openpose_cmd self video_path) of
        Inr u \<Rightarrow> (Inr (), lg @ [Processed (str video_path)])
      | Inl (CalledProcessError status) \<Rightarrow>
          (Inr (), lg @ [ErrorProcessing (str video_path) (CalledProcessError status)])
      | Inl e \<Rightarrow> (Inl e, lg))"

text \<open>
  The loop of \<^verbatim>\<open>process_dataset\<close> over the clips of one video (lines 248 and 249):
  \<^verbatim>\<open>launched\<close> collects the clips handed to \<^verbatim>\<open>process_with_openpose\<close>.
\<close>

fun openpose_clips ::
  "(string list \<Rightarrow> launch) \<Rightarrow> processor \<Rightarrow> (string \<times> path) list \<Rightarrow> path list \<Rightarrow> log_record list
     \<Rightarrow> (error + unit) \<times> path list \<times> log_record list" where
  "openpose_clips os self [] launched lg = (Inr (), launched, lg)"
| "openpose_clips os self ((word', clip_path) # rest) launched lg =
     (case process_with_openpose os self clip_path lg of
        (Inl e, lg') \<Rightarrow> (Inl e, launched @ [clip_path], lg')
      | (Inr u, lg') \<Rightarrow> openpose_clips os self rest (launched @ [clip_path]) lg')"

section \<open>Joining poses to words: \<^verbatim>\<open>create_word_pose_mapping\<close>\<close>

text \<open>
  \<^verbatim>\<open>pose_files\<close> gives the state of every path; the pose data that \<^verbatim>\<open>json.load\<close>
  returns is opaque. The loop of lines 218 to 226: \<^verbatim>\<open>json.load\<close> stands in no
  \<^verbatim>\<open>try\<close>.
\<close>

fun join_loop ::
  "processor \<Rightarrow> (string \<Rightarrow> 'p file_state) \<Rightarrow> entry list \<Rightarrow> (string \<times> 'p) list
     \<Rightarrow> error + (string \<times> 'p) list" where
  "join_loop self pose_files [] mapping = Inr mapping"
| "join_loop self pose_files (entry # rest) mapping =
     (let pose_file = slash (pose_dir self) (video_id entry @ ''.json'') in
      case pose_files pose_file of
        Missing \<Rightarrow> join_loop self pose_files rest mapping
      | Garbled \<Rightarrow> Inl JSONDecodeError
      | Holds pose_data \<Rightarrow>
          join_loop self pose_files rest (AList.update (word entry) pose_data mapping))"

text \<open>
  The function: the result is the mapping that \<^verbatim>\<open>json.dump\<close> writes to
  \<^verbatim>\<open>word_pose_mapping.json\<close>; \<^verbatim>\<open>mapping_writable\<close> says whether that file can be
  opened for writing.
\<close>

definition create_word_pose_mapping ::
  "processor \<Rightarrow> (string \<Rightarrow> 'p file_state) \<Rightarrow> bool \<Rightarrow> entry list \<Rightarrow> error + (string \<times> 'p) list" where
  "create_word_pose_mapping self pose_files mapping_writable metadata =
     (case join_loop self pose_files metadata [] of
        Inl e \<Rightarrow> Inl e
      | Inr mapping \<Rightarrow> if mapping_writable then Inr mapping else Inl OSError)"

section \<open>The specification's reading of the timestamp index\<close>

text \<open>
  In the specification's words: among the stored entries of the video, the interval
  of the last one that carries the word; nothing for a word that no entry of the
  video carries.
\<close>

definition last_interval :: "entry list \<Rightarrow> string \<Rightarrow> string \<Rightarrow> (rat \<times> rat) option" where
  "last_interval entries video_id' word' =
     (case filter (\<lambda>entry. video_id entry = video_id' \<and> word entry = word') entries of
        [] \<Rightarrow> None
      | matches \<Rightarrow> Some (start_time (last matches), end_time (last matches)))"

section \<open>Segmentation, word by word\<close>

text \<open>
  The output path of a word's clip (line 188) and the exception, if any, that the
  two moviepy calls of one turn of the loop raise for an item of the mapping.
\<close>

definition clip_output_path :: "processor \<Rightarrow> path \<Rightarrow> string \<Rightarrow> string" where
  "clip_output_path self video_path word' =
     slash (videos_dir self) (stem video_path @ ''_'' @ word' @ ''.mp4'')"

definition clip_raises ::
  "moviepy \<Rightarrow> processor \<Rightarrow> path \<Rightarrow> string \<times> rat \<times> rat \<Rightarrow> error option" where
  "clip_raises mp self video_path item =
     (case item of (word', start, end') \<Rightarrow>
        (case subclip mp start end' of
           Some e \<Rightarrow> Some e
         | None \<Rightarrow> write_videofile mp (clip_output_path self video_path word')))"

definition clip_of :: "processor \<Rightarrow> path \<Rightarrow> string \<times> rat \<times> rat \<Rightarrow> string \<times> string" where
  "clip_of self video_path item = (fst item, clip_output_path self video_path (fst item))"

text \<open>
  A moviepy whose encoder fails on one output path and on nothing else, and the
  state before any video has been touched.
\<close>

definition encoder_failing_on :: "string \<Rightarrow> moviepy" where
  "encoder_failing_on bad_path =
     \<lparr> VideoFileClip = (\<lambda>p. None),
       subclip = (\<lambda>start end'. None),
       write_videofile = (\<lambda>output_path. if output_path = bad_path then Some ClipError else None) \<rparr>"

definition nothing_open :: video_io where
  "nothing_open = \<lparr> open_videos = [], attempted = [], written = [] \<rparr>"

definition v1_mp4 :: path where
  "v1_mp4 = \<lparr> parent = ''data/wasl_processed/videos'', stem = ''v1'', suffix = ''.mp4'' \<rparr>"

section \<open>The join, entry by entry\<close>

text \<open>The pose file that line 221 computes for an entry.\<close>

definition pose_file_of :: "processor \<Rightarrow> entry \<Rightarrow> string" where
  "pose_file_of self entry = slash (pose_dir self) (video_id entry @ ''.json'')"

text \<open>
  In the specification's words: a word is bound to the pose data of the last
  metadata entry that carries it and whose pose file exists, and is not bound when
  there is no such entry.
\<close>

definition last_pose ::
  "processor \<Rightarrow> (string \<Rightarrow> 'p file_state) \<Rightarrow> entry list \<Rightarrow> string \<Rightarrow> 'p option" where
  "last_pose self pose_files metadata word' =
     (case filter (\<lambda>entry. word entry = word' \<and> pose_files (pose_file_of self entry) \<noteq> Missing)
             metadata of
        [] \<Rightarrow> None
      | matches \<Rightarrow>
          (case pose_files (pose_file_of self (last matches)) of
             Holds pose_data \<Rightarrow> Some pose_data
           | _ \<Rightarrow> None))"

text \<open>A pose directory with one file in it.\<close>

definition only_file :: "string \<Rightarrow> 'p file_state \<Rightarrow> string \<Rightarrow> 'p file_state" where
  "only_file name content p = (if p = name then content else Missing)"

section \<open>Acquisition, entry by entry\<close>

text \<open>
  The file whose existence line 176 tests, the URL of line 177, and the output path
  of \<^verbatim>\<open>get_WLASL.py\<close> (line 21).
\<close>

definition mp4_of :: "processor \<Rightarrow> entry \<Rightarrow> string" where
  "mp4_of self entry = slash (videos_dir self) (video_id entry @ ''.mp4'')"

definition youtube_url :: "entry \<Rightarrow> string" where
  "youtube_url entry = ''https://www.youtube.com/watch?v='' @ video_id entry"

definition out_path_of :: "sample \<Rightarrow> string" where
  "out_path_of sample =
     ''data/raw_videos/'' @ gloss sample @ ''_'' @ instance_id sample @ ''.mp4''"

text \<open>
  A fetch that succeeds and saves the video under a given path, and a disk on which
  nothing has been downloaded yet.
\<close>

definition saving_as :: "string \<Rightarrow> fetcher" where
  "saving_as saved_path url w = (None, insert saved_path (files w))"

definition empty_disk :: net_world where
  "empty_disk = \<lparr> files = {}, fetched = [], net_log = [] \<rparr>"

section \<open>Pose extraction, clip by clip\<close>

text \<open>Whether the OpenPose process of a clip starts and runs to an exit status.\<close>

definition exits :: "(string list \<Rightarrow> launch) \<Rightarrow> processor \<Rightarrow> string \<times> path \<Rightarrow> bool" where
  "exits os self clip =
     (case os (openpose_cmd self (snd clip)) of Exited status \<Rightarrow> True | NotStarted e \<Rightarrow> False)"

text \<open>
  An operating system on which OpenPose exits with status 1, except that the
  executable is not found when it is asked for one given clip.
\<close>

definition binary_missing_for :: "string \<Rightarrow> string list \<Rightarrow> launch" where
  "binary_missing_for clip cmd =
     (if clip \<in> set cmd then NotStarted FileNotFoundError else Exited 1)"

definition clip_path :: "string \<Rightarrow> path" where
  "clip_path name = \<lparr> parent = ''data/wasl_processed/videos'', stem = name, suffix = ''.mp4'' \<rparr>"

section \<open>The specification's rule for raw records of any scalar type\<close>

text \<open>
  In the specification's words, for fields of any scalar type. A value is non-empty
  unless it is \<^verbatim>\<open>null\<close>, \<^verbatim>\<open>false\<close>, zero or the empty str. Two times are comparable
  when both are numbers (a bool counting as 0 or 1) or both are strs, ordered by
  value and lexicographically by character code; \<open>None\<close> says that they are not
  comparable.
\<close>

definition non_empty :: "jvalue \<Rightarrow> bool" where
  "non_empty v = (v \<notin> {JNull, JBool False, JNum 0, JStr []})"

definition strictly_less :: "jvalue \<Rightarrow> jvalue \<Rightarrow> bool option" where
  "strictly_less a b =
     (case (a, b) of
        (JNum x, JNum y) \<Rightarrow> Some (x < y)
      | (JNum x, JBool q) \<Rightarrow> Some (x < of_bool q)
      | (JBool p, JNum y) \<Rightarrow> Some (of_bool p < y)
      | (JBool p, JBool q) \<Rightarrow> Some (\<not> p \<and> q)
      | (JStr s, JStr t) \<Rightarrow> Some ((s, t) \<in> lexord {(c, d). (of_char c :: nat) < of_char d})
      | _ \<Rightarrow> None)"

text \<open>
  The fields of a raw record with the defaults of lines 105 to 112, the records that
  are candidates (non-empty \<^verbatim>\<open>video_id\<close> and \<^verbatim>\<open>word\<close>), those among them whose times
  are not comparable, those that the rule keeps, and the entry written for a record.
\<close>

definition raw_video_id :: "pydict \<Rightarrow> jvalue" where
  "raw_video_id entry = dict_get entry ''video_id'' JNull"

definition raw_word :: "pydict \<Rightarrow> jvalue" where
  "raw_word entry = dict_get entry ''word'' (JStr [])"

definition raw_start_time :: "pydict \<Rightarrow> jvalue" where
  "raw_start_time entry = dict_get entry ''start_time'' (JNum 0)"

definition raw_end_time :: "pydict \<Rightarrow> jvalue" where
  "raw_end_time entry = dict_get entry ''end_time'' (JNum 0)"

definition candidate :: "pydict \<Rightarrow> bool" where
  "candidate entry = (non_empty (raw_video_id entry) \<and> non_empty (raw_word entry))"

definition times_not_comparable :: "pydict \<Rightarrow> bool" where
  "times_not_comparable entry =
     (candidate entry \<and> strictly_less (raw_start_time entry) (raw_end_time entry) = None)"

definition rule_keeps :: "pydict \<Rightarrow> bool" where
  "rule_keeps entry =
     (candidate entry \<and> strictly_less (raw_start_time entry) (raw_end_time entry) = Some True)"

definition canonical_entry :: "pydict \<Rightarrow> pydict" where
  "canonical_entry entry =
     [''video_id'' \<mapsto> raw_video_id entry, ''word'' \<mapsto> raw_word entry,
      ''start_time'' \<mapsto> raw_start_time entry, ''end_time'' \<mapsto> raw_end_time entry]"

chapter \<open>Properties\<close>

section \<open>Normalisation of records of the specified types\<close>

lemma truthy_get_null:
  "absent_or_str (entry k) \<Longrightarrow> truthy (dict_get entry k JNull) = (str_field entry k \<noteq> [])"
  by (simp add: absent_or_str_def dict_get_def str_field_def split: option.splits jvalue.splits)

lemma truthy_get_empty:
  "absent_or_str (entry k) \<Longrightarrow> truthy (dict_get entry k (JStr [])) = (str_field entry k \<noteq> [])"
  by (simp add: absent_or_str_def dict_get_def str_field_def split: option.splits jvalue.splits)

lemma get_str_field:
  "absent_or_str (entry k) \<Longrightarrow> str_field entry k \<noteq> [] \<Longrightarrow>
   dict_get entry k d = JStr (str_field entry k)"
  by (simp add: absent_or_str_def dict_get_def str_field_def split: option.splits jvalue.splits)

lemma get_time_field:
  "absent_or_num (entry k) \<Longrightarrow> dict_get entry k (JNum 0) = JNum (time_field entry k)"
  by (simp add: absent_or_num_def dict_get_def time_field_def split: option.splits jvalue.splits)

text \<open>One turn of the loop on a record of the expected types.\<close>

lemma normalize_step:
  assumes "well_typed entry"
  shows "normalize_loop (entry # rest) metadata =
     normalize_loop rest (if spec_keeps entry then metadata @ [spec_canonical entry] else metadata)"
proof -
  from assms have v: "absent_or_str (entry ''video_id'')" and w: "absent_or_str (entry ''word'')"
    and s: "absent_or_num (entry ''start_time'')" and e: "absent_or_num (entry ''end_time'')"
    by (simp_all add: well_typed_def)
  note tv = truthy_get_null [of entry "''video_id''", OF v]
  note tw = truthy_get_empty [of entry "''word''", OF w]
  show ?thesis
  proof (cases "str_field entry ''video_id'' = []")
    case True
    then show ?thesis
      using tv by (simp add: spec_keeps_def)
  next
    case vid: False
    show ?thesis
    proof (cases "str_field entry ''word'' = []")
      case True
      then show ?thesis
        using tv tw vid by (simp add: spec_keeps_def)
    next
      case False
      then show ?thesis
        using tv tw vid
          get_str_field [of entry "''video_id''", OF v vid]
          get_str_field [of entry "''word''", OF w False]
          get_time_field [of entry "''start_time''", OF s]
          get_time_field [of entry "''end_time''", OF e]
        by (simp add: spec_keeps_def spec_canonical_def)
    qed
  qed
qed

lemma normalize_loop_typed:
  "list_all well_typed annotations \<Longrightarrow>
   normalize_loop annotations metadata =
     Inr (metadata @ map spec_canonical (filter spec_keeps annotations))"
proof (induction annotations arbitrary: metadata)
  case Nil
  then show ?case by simp
next
  case (Cons entry rest)
  then show ?case
    by (simp add: normalize_step del: normalize_loop.simps)
qed

text \<open>
  Outside those types the comparison can raise: a record whose \<^verbatim>\<open>start_time\<close> is
  \<^verbatim>\<open>null\<close> stops the normalisation with \<^verbatim>\<open>TypeError\<close>.
\<close>

lemma normalize_null_time_raises:
  "normalize_loop
     [[''video_id'' \<mapsto> JStr ''v1'', ''word'' \<mapsto> JStr ''hello'',
       ''start_time'' \<mapsto> JNull, ''end_time'' \<mapsto> JNum 2]] [] = Inl TypeError"
  by (simp add: dict_get_def)

text \<open>
  On records of those types no comparison raises, and the metadata written hold
  exactly the records whose \<^verbatim>\<open>video_id\<close> and \<^verbatim>\<open>word\<close> are non-empty strs and whose
  \<^verbatim>\<open>start_time\<close> is less than their \<^verbatim>\<open>end_time\<close>, in the order of the input.
\<close>

lemma normalization_of_typed_records:
  assumes "list_all well_typed annotations"
  shows "process_WASL_structure True (Holds annotations) True =
           Inr (map spec_canonical (filter spec_keeps annotations))"
  using assms by (simp add: process_WASL_structure_def normalize_loop_typed)

lemma normalization_of_typed_records_example:
  "process_WASL_structure True
     (Holds [[''video_id'' \<mapsto> JStr ''v1'', ''word'' \<mapsto> JStr ''hello'',
              ''start_time'' \<mapsto> JNum 5, ''end_time'' \<mapsto> JNum 3],
             [''video_id'' \<mapsto> JStr ''v1'', ''word'' \<mapsto> JStr ''hello'',
              ''start_time'' \<mapsto> JNum 1, ''end_time'' \<mapsto> JNum 2],
             [''word'' \<mapsto> JStr ''cat'', ''start_time'' \<mapsto> JNum 0, ''end_time'' \<mapsto> JNum 2],
             [''video_id'' \<mapsto> JStr ''v2'', ''word'' \<mapsto> JNull, ''end_time'' \<mapsto> JNum 4],
             [''video_id'' \<mapsto> JStr ''v2'', ''word'' \<mapsto> JStr ''dog'', ''end_time'' \<mapsto> JNum 4]])
     True =
   Inr [[''video_id'' \<mapsto> JStr ''v1'', ''word'' \<mapsto> JStr ''hello'',
         ''start_time'' \<mapsto> JNum 1, ''end_time'' \<mapsto> JNum 2],
        [''video_id'' \<mapsto> JStr ''v2'', ''word'' \<mapsto> JStr ''dog'',
         ''start_time'' \<mapsto> JNum 0, ''end_time'' \<mapsto> JNum 4]]"
  using normalization_of_typed_records
    [of "[[''video_id'' \<mapsto> JStr ''v1'', ''word'' \<mapsto> JStr ''hello'',
           ''start_time'' \<mapsto> JNum 5, ''end_time'' \<mapsto> JNum 3],
          [''video_id'' \<mapsto> JStr ''v1'', ''word'' \<mapsto> JStr ''hello'',
           ''start_time'' \<mapsto> JNum 1, ''end_time'' \<mapsto> JNum 2],
          [''word'' \<mapsto> JStr ''cat'', ''start_time'' \<mapsto> JNum 0, ''end_time'' \<mapsto> JNum 2],
          [''video_id'' \<mapsto> JStr ''v2'', ''word'' \<mapsto> JNull, ''end_time'' \<mapsto> JNum 4],
          [''video_id'' \<mapsto> JStr ''v2'', ''word'' \<mapsto> JStr ''dog'', ''end_time'' \<mapsto> JNum 4]]"]
  by (simp add: well_typed_def absent_or_str_def absent_or_num_def spec_keeps_def
      spec_canonical_def str_field_def time_field_def)

section \<open>Normalisation of raw records of any scalar type\<close>

text \<open>
  The primitives of the loop agree with the rule as the specification words it:
  truthiness is non-emptiness, and \<^verbatim>\<open><\<close> is the strict order on numbers and the
  lexicographic order on strs, and raises on every other pair.
\<close>

lemma truthy_non_empty: "truthy v = non_empty v"
  by (cases v) (simp_all add: non_empty_def)

lemma str_lt_lexord:
  "str_lt s t = ((s, t) \<in> lexord {(c, d). (of_char c :: nat) < of_char d})"
  by (induction s t rule: str_lt.induct) auto

lemma py_lt_strictly_less:
  "py_lt a b = (case strictly_less a b of None \<Rightarrow> Inl TypeError | Some r \<Rightarrow> Inr r)"
  by (cases a; cases b) (simp_all add: strictly_less_def str_lt_lexord)

text \<open>One turn of the loop, and the loop, on records of any scalar type.\<close>

lemma normalize_step_any:
  "normalize_loop (entry # rest) metadata =
     (if times_not_comparable entry then Inl TypeError
      else normalize_loop rest
             (if rule_keeps entry then metadata @ [canonical_entry entry] else metadata))"
proof (cases "candidate entry")
  case False
  then show ?thesis
    by (auto simp: candidate_def raw_video_id_def raw_word_def truthy_non_empty
        times_not_comparable_def rule_keeps_def Let_def)
next
  case True
  then have t: "truthy (dict_get entry ''video_id'' JNull)" "truthy (dict_get entry ''word'' (JStr []))"
    by (simp_all add: candidate_def raw_video_id_def raw_word_def truthy_non_empty)
  show ?thesis
  proof (cases "strictly_less (raw_start_time entry) (raw_end_time entry)")
    case None
    then have "py_lt (dict_get entry ''start_time'' (JNum 0)) (dict_get entry ''end_time'' (JNum 0))
        = Inl TypeError"
      by (simp add: py_lt_strictly_less raw_start_time_def raw_end_time_def)
    with t None True show ?thesis
      by (simp add: times_not_comparable_def)
  next
    case (Some r)
    then have "py_lt (dict_get entry ''start_time'' (JNum 0)) (dict_get entry ''end_time'' (JNum 0))
        = Inr r"
      by (simp add: py_lt_strictly_less raw_start_time_def raw_end_time_def)
    with t Some True show ?thesis
      by (simp add: times_not_comparable_def rule_keeps_def canonical_entry_def
          raw_video_id_def raw_word_def raw_start_time_def raw_end_time_def)
  qed
qed

lemma normalize_loop_any:
  "normalize_loop annotations metadata =
     (if list_ex times_not_comparable annotations then Inl TypeError
      else Inr (metadata @ map canonical_entry (filter rule_keeps annotations)))"
proof (induction annotations arbitrary: metadata)
  case Nil
  show ?case by simp
next
  case (Cons entry rest)
  show ?case
    by (simp add: normalize_step_any Cons.IH del: normalize_loop.simps)
qed

text \<open>
  Claim C1, as the code has it. For every sequence of raw annotation records: when
  some record with non-empty \<^verbatim>\<open>video_id\<close> and \<^verbatim>\<open>word\<close> has a \<^verbatim>\<open>start_time\<close> and an
  \<^verbatim>\<open>end_time\<close> (each defaulting to 0 when absent) that cannot be compared,
  normalisation raises \<^verbatim>\<open>TypeError\<close> and writes no metadata; otherwise a record is
  in the metadata written if and only if its \<^verbatim>\<open>video_id\<close> and \<^verbatim>\<open>word\<close> are non-empty and
  its \<^verbatim>\<open>start_time\<close> is strictly less than its \<^verbatim>\<open>end_time\<close>, and the entries kept
  are in the order of the input.
\<close>

theorem normalization_filters_or_raises:
  "process_WASL_structure True (Holds annotations) True =
     (if list_ex times_not_comparable annotations then Inl TypeError
      else Inr (map canonical_entry (filter rule_keeps annotations)))"
  by (simp add: process_WASL_structure_def normalize_loop_any)

theorem normalization_filters_or_raises_witness:
  "process_WASL_structure True
     (Holds [[''video_id'' \<mapsto> JStr ''v1'', ''word'' \<mapsto> JStr ''hello'',
              ''start_time'' \<mapsto> JNum 5, ''end_time'' \<mapsto> JNum 3],
             [''video_id'' \<mapsto> JStr ''v1'', ''word'' \<mapsto> JStr ''hello'',
              ''start_time'' \<mapsto> JNum 1, ''end_time'' \<mapsto> JNum 2],
             [''word'' \<mapsto> JStr ''cat'', ''start_time'' \<mapsto> JNull, ''end_time'' \<mapsto> JNum 2],
             [''video_id'' \<mapsto> JStr ''v2'', ''word'' \<mapsto> JNull, ''end_time'' \<mapsto> JStr ''x''],
             [''video_id'' \<mapsto> JStr ''v2'', ''word'' \<mapsto> JStr ''dog'', ''end_time'' \<mapsto> JBool True],
             [''video_id'' \<mapsto> JStr ''v3'', ''word'' \<mapsto> JStr ''sun'',
              ''start_time'' \<mapsto> JStr ''0:10'', ''end_time'' \<mapsto> JStr ''0:2''],
             [''video_id'' \<mapsto> JStr ''v3'', ''word'' \<mapsto> JStr ''moon'',
              ''start_time'' \<mapsto> JStr ''0:2'', ''end_time'' \<mapsto> JStr ''0:10'']])
     True =
   Inr [[''video_id'' \<mapsto> JStr ''v1'', ''word'' \<mapsto> JStr ''hello'',
         ''start_time'' \<mapsto> JNum 1, ''end_time'' \<mapsto> JNum 2],
        [''video_id'' \<mapsto> JStr ''v2'', ''word'' \<mapsto> JStr ''dog'',
         ''start_time'' \<mapsto> JNum 0, ''end_time'' \<mapsto> JBool True],
        [''video_id'' \<mapsto> JStr ''v3'', ''word'' \<mapsto> JStr ''sun'',
         ''start_time'' \<mapsto> JStr ''0:10'', ''end_time'' \<mapsto> JStr ''0:2'']] \<and>
   process_WASL_structure True
     (Holds [[''video_id'' \<mapsto> JStr ''v1'', ''word'' \<mapsto> JStr ''hello'',
              ''start_time'' \<mapsto> JNum 1, ''end_time'' \<mapsto> JNum 2],
             [''video_id'' \<mapsto> JStr ''v1'', ''word'' \<mapsto> JStr ''bye'',
              ''start_time'' \<mapsto> JStr ''3'', ''end_time'' \<mapsto> JNum 4]])
     True = Inl TypeError"
  using normalization_filters_or_raises
    [of "[[''video_id'' \<mapsto> JStr ''v1'', ''word'' \<mapsto> JStr ''hello'',
              ''start_time'' \<mapsto> JNum 5, ''end_time'' \<mapsto> JNum 3],
             [''video_id'' \<mapsto> JStr ''v1'', ''word'' \<mapsto> JStr ''hello'',
              ''start_time'' \<mapsto> JNum 1, ''end_time'' \<mapsto> JNum 2],
             [''word'' \<mapsto> JStr ''cat'', ''start_time'' \<mapsto> JNull, ''end_time'' \<mapsto> JNum 2],
             [''video_id'' \<mapsto> JStr ''v2'', ''word'' \<mapsto> JNull, ''end_time'' \<mapsto> JStr ''x''],
             [''video_id'' \<mapsto> JStr ''v2'', ''word'' \<mapsto> JStr ''dog'', ''end_time'' \<mapsto> JBool True],
             [''video_id'' \<mapsto> JStr ''v3'', ''word'' \<mapsto> JStr ''sun'',
              ''start_time'' \<mapsto> JStr ''0:10'', ''end_time'' \<mapsto> JStr ''0:2''],
             [''video_id'' \<mapsto> JStr ''v3'', ''word'' \<mapsto> JStr ''moon'',
              ''start_time'' \<mapsto> JStr ''0:2'', ''end_time'' \<mapsto> JStr ''0:10'']]"]
    normalization_filters_or_raises
    [of "[[''video_id'' \<mapsto> JStr ''v1'', ''word'' \<mapsto> JStr ''hello'',
              ''start_time'' \<mapsto> JNum 1, ''end_time'' \<mapsto> JNum 2],
             [''video_id'' \<mapsto> JStr ''v1'', ''word'' \<mapsto> JStr ''bye'',
              ''start_time'' \<mapsto> JStr ''3'', ''end_time'' \<mapsto> JNum 4]]"]
  by (simp add: times_not_comparable_def rule_keeps_def candidate_def canonical_entry_def
      raw_video_id_def raw_word_def raw_start_time_def raw_end_time_def dict_get_def
      non_empty_def strictly_less_def)

text \<open>
  Claim C1 as the specification states it (for every sequence of raw records, a
  record is in the output if and only if it satisfies the rule) fails: the first
  record below satisfies the rule, the \<^verbatim>\<open>start_time\<close> of the second is \<^verbatim>\<open>null\<close>, and
  the comparison of line 114 raises, so no metadata are written and the first
  record is in no output.
\<close>

theorem valid_record_lost_to_type_error:
  "rule_keeps [''video_id'' \<mapsto> JStr ''v1'', ''word'' \<mapsto> JStr ''hello'',
               ''start_time'' \<mapsto> JNum 1, ''end_time'' \<mapsto> JNum 2] \<and>
   process_WASL_structure True
     (Holds [[''video_id'' \<mapsto> JStr ''v1'', ''word'' \<mapsto> JStr ''hello'',
              ''start_time'' \<mapsto> JNum 1, ''end_time'' \<mapsto> JNum 2],
             [''video_id'' \<mapsto> JStr ''v1'', ''word'' \<mapsto> JStr ''bye'',
              ''start_time'' \<mapsto> JNull, ''end_time'' \<mapsto> JNum 2]])
     True = Inl TypeError"
  by (simp add: process_WASL_structure_def rule_keeps_def candidate_def raw_video_id_def
      raw_word_def raw_start_time_def raw_end_time_def dict_get_def non_empty_def
      strictly_less_def)

section \<open>The timestamp index\<close>

text \<open>
  No str is a member of the cache, whatever the cache holds: \<^verbatim>\<open>{}\<close> has no key and
  an entry dict is never equal to a str.
\<close>

lemma never_cached: "\<not> py_in (Str video_id') cache"
  by (cases cache) (simp_all add: list_ex_iff)

lemma map_of_build:
  "map_of (build_word_timestamps entries wt) w =
     (case filter (\<lambda>entry. word entry = w) entries of
        [] \<Rightarrow> map_of wt w
      | matches \<Rightarrow> Some (start_time (last matches), end_time (last matches)))"
proof (induction entries arbitrary: wt)
  case Nil
  show ?case by simp
next
  case (Cons entry rest)
  show ?case
    by (simp add: Cons.IH update_conv' split: list.splits)
qed

lemma distinct_build:
  "distinct (map fst wt) \<Longrightarrow> distinct (map fst (build_word_timestamps entries wt))"
  by (induction entries arbitrary: wt) (simp_all add: distinct_update)

lemma filter_word_of_video:
  "filter (\<lambda>entry. word entry = w) (filter (\<lambda>entry. video_id entry = v) entries) =
   filter (\<lambda>entry. video_id entry = v \<and> word entry = w) entries"
  by (induction entries) auto

lemma lookup_video_map_of:
  "map_of (fst (lookup_video (EntryList entries) v)) w = last_interval entries v w"
proof (cases "filter (\<lambda>entry. video_id entry = v) entries = []")
  case True
  then have "filter (\<lambda>entry. video_id entry = v \<and> word entry = w) entries = []"
    by (auto simp: filter_empty_conv)
  with True show ?thesis
    by (simp add: lookup_video_def last_interval_def)
next
  case False
  then show ?thesis
    by (simp add: lookup_video_def last_interval_def map_of_build filter_word_of_video
        split: list.splits)
qed

lemma lookup_video_distinct:
  "distinct (map fst (fst (lookup_video cache v)))"
  by (simp add: lookup_video_def Let_def distinct_build)

text \<open>A call that finds the metadata file loads it, whatever the cache holds.\<close>

lemma get_word_timestamps_Holds:
  "get_word_timestamps self (Holds entries) v =
     \<lparr> returned = Inr (fst (lookup_video (EntryList entries) v)),
       self_after = self\<lparr> metadata_cache := EntryList entries \<rparr>,
       file_reads = 1,
       logged = snd (lookup_video (EntryList entries) v) \<rparr>"
  by (simp add: get_word_timestamps_def never_cached Let_def split: prod.splits)

text \<open>
  Claim C6. The mapping that \<^verbatim>\<open>_get_word_timestamps\<close> returns for a video binds a
  word to the interval of the last stored entry of that video with that word, and
  binds no word that no entry of that video carries.
\<close>

theorem last_write_wins:
  "\<exists>word_timestamps.
     returned (get_word_timestamps self (Holds entries) video_id') = Inr word_timestamps \<and>
     distinct (map fst word_timestamps) \<and>
     (\<forall>word'. map_of word_timestamps word' = last_interval entries video_id' word')"
  by (simp add: get_word_timestamps_Holds lookup_video_map_of lookup_video_distinct)

theorem last_write_wins_witness:
  "\<exists>word_timestamps.
     returned (get_word_timestamps (WASLProcessor ''data/wasl_processed'')
        (Holds [\<lparr>video_id = ''v1'', word = ''hi'', start_time = 0, end_time = 1\<rparr>,
                \<lparr>video_id = ''v2'', word = ''dog'', start_time = 1, end_time = 3\<rparr>,
                \<lparr>video_id = ''v1'', word = ''hi'', start_time = 5, end_time = 6\<rparr>]) ''v1'')
       = Inr word_timestamps \<and>
     map_of word_timestamps ''hi'' = Some (5, 6) \<and>
     map_of word_timestamps ''dog'' = None"
  using last_write_wins [of "WASLProcessor ''data/wasl_processed''"
        "[\<lparr>video_id = ''v1'', word = ''hi'', start_time = 0, end_time = 1\<rparr>,
          \<lparr>video_id = ''v2'', word = ''dog'', start_time = 1, end_time = 3\<rparr>,
          \<lparr>video_id = ''v1'', word = ''hi'', start_time = 5, end_time = 6\<rparr>]" "''v1''"]
  by (auto simp: last_interval_def)

text \<open>
  Every call that finds the file opens it, so a process that makes \<open>n\<close> calls reads
  the file \<open>n\<close> times; and a call raises \<^verbatim>\<open>FileNotFoundError\<close> whenever the file is
  missing, also after an earlier call has loaded it.
\<close>

lemma every_call_reads:
  "total_file_reads self (Holds entries) video_ids = length video_ids"
  by (induction video_ids arbitrary: self) (simp_all add: get_word_timestamps_Holds)

lemma missing_raises_on_any_call:
  "returned (get_word_timestamps self Missing video_id') = Inl FileNotFoundError"
  by (simp add: get_word_timestamps_def never_cached)

text \<open>
  Claim C2 says that the metadata artifact is read at most once in a process. The
  code tests \<^verbatim>\<open>video_id not in self.metadata_cache\<close> against the list of entries,
  which never contains the str, so it loads the file at every call: two calls for
  the same video read the file twice.
\<close>

theorem cache_reloaded_at_every_call:
  "total_file_reads (WASLProcessor ''data/wasl_processed'')
     (Holds [\<lparr>video_id = ''v1'', word = ''hi'', start_time = 0, end_time = 1\<rparr>])
     [''v1'', ''v1''] = 2"
  by (simp add: get_word_timestamps_def lookup_video_def WASLProcessor_def)

section \<open>Segmentation\<close>

lemma split_loop_all_succeed:
  "list_all (\<lambda>item. clip_raises mp self video_path item = None) items \<Longrightarrow>
   split_loop mp self video_path items word_clips io =
     (Inr (word_clips @ map (clip_of self video_path) items),
      io\<lparr> attempted := attempted io @ map fst items,
          written := written io @ map (\<lambda>item. clip_output_path self video_path (fst item)) items \<rparr>)"
proof (induction items arbitrary: word_clips io)
  case Nil
  show ?case by simp
next
  case (Cons item rest)
  obtain w s e where item: "item = (w, s, e)" by (cases item) auto
  from Cons.prems have ok: "subclip mp s e = None"
      "write_videofile mp (slash (videos_dir self) (stem video_path @ ''_'' @ w @ ''.mp4'')) = None"
    and rest: "list_all (\<lambda>item. clip_raises mp self video_path item = None) rest"
    by (auto simp: item clip_raises_def clip_output_path_def split: option.splits)
  from ok show ?case
    by (simp add: item Let_def Cons.IH [OF rest] clip_of_def clip_output_path_def)
qed

lemma split_loop_first_failure:
  "list_all (\<lambda>item. clip_raises mp self video_path item = None) before \<Longrightarrow>
   clip_raises mp self video_path item = Some e \<Longrightarrow>
   split_loop mp self video_path (before @ item # rest) word_clips io =
     (Inl e,
      io\<lparr> attempted := attempted io @ map fst before @ [fst item],
          written := written io @ map (\<lambda>item. clip_output_path self video_path (fst item)) before \<rparr>)"
proof (induction before arbitrary: word_clips io)
  case Nil
  obtain w s t where item: "item = (w, s, t)" by (cases item) auto
  from Nil.prems(2) show ?case
    by (auto simp: item clip_raises_def clip_output_path_def split: option.splits)
next
  case (Cons first before)
  obtain w s t where first: "first = (w, s, t)" by (cases first) auto
  from Cons.prems(1) have ok: "subclip mp s t = None"
      "write_videofile mp (slash (videos_dir self) (stem video_path @ ''_'' @ w @ ''.mp4'')) = None"
    and before: "list_all (\<lambda>item. clip_raises mp self video_path item = None) before"
    by (auto simp: first clip_raises_def clip_output_path_def split: option.splits)
  from ok show ?case
    by (simp add: first Let_def Cons.IH [OF before Cons.prems(2)] clip_output_path_def)
qed

text \<open>
  Claim C3, as the code has it. \<^verbatim>\<open>split_video_into_words\<close> has no handler: when
  the clips of all words succeed it returns one clip per word, in mapping order;
  when the clip of a word fails, the exception leaves the function, the words
  before it have been attempted and their clips written, the failing word is the
  last one attempted, and no list of clips is returned.
\<close>

theorem segmentation_stops_at_first_failure:
  assumes "VideoFileClip mp (str video_path) = None"
    and "list_all (\<lambda>item. clip_raises mp self video_path item = None) before"
  shows "fst (split_video_into_words mp self video_path before io) =
           Inr (map (clip_of self video_path) before) \<and>
         (clip_raises mp self video_path item = Some e \<longrightarrow>
            fst (split_video_into_words mp self video_path (before @ item # rest) io) = Inl e \<and>
            attempted (snd (split_video_into_words mp self video_path (before @ item # rest) io)) =
              attempted io @ map fst before @ [fst item] \<and>
            written (snd (split_video_into_words mp self video_path (before @ item # rest) io)) =
              written io @ map (\<lambda>item. clip_output_path self video_path (fst item)) before)"
  using assms
  by (simp add: split_video_into_words_def split_loop_all_succeed split_loop_first_failure)

text \<open>
  The source video: \<^verbatim>\<open>video.close()\<close> runs after the loop, so the handle is
  released when every clip succeeds and stays open when a clip fails.
\<close>

lemma handle_left_open_on_failure:
  assumes "VideoFileClip mp (str video_path) = None"
    and "list_all (\<lambda>item. clip_raises mp self video_path item = None) before"
    and "clip_raises mp self video_path item = Some e"
  shows "open_videos (snd (split_video_into_words mp self video_path (before @ item # rest) io)) =
           open_videos io @ [str video_path]"
  using assms
  by (simp add: split_video_into_words_def split_loop_first_failure)

lemma handle_closed_on_success:
  assumes "VideoFileClip mp (str video_path) = None"
    and "list_all (\<lambda>item. clip_raises mp self video_path item = None) items"
    and "str video_path \<notin> set (open_videos io)"
  shows "open_videos (snd (split_video_into_words mp self video_path items io)) = open_videos io"
  using assms
  by (simp add: split_video_into_words_def split_loop_all_succeed remove1_append)

text \<open>
  Claim C3 as the specification states it (a failing word does not keep the
  remaining words from being attempted, and the clips that succeeded are returned)
  fails: with words \<^verbatim>\<open>a\<close>, \<^verbatim>\<open>b\<close>, \<^verbatim>\<open>c\<close> and an encoder that fails on the clip of
  \<^verbatim>\<open>b\<close>, the call raises, \<^verbatim>\<open>c\<close> is never attempted and the clip of \<^verbatim>\<open>a\<close>, though
  written, is not returned.
\<close>

theorem segmentation_aborts_video:
  "fst (split_video_into_words
          (encoder_failing_on ''data/wasl_processed/videos/v1_b.mp4'')
          (WASLProcessor ''data/wasl_processed'') v1_mp4
          [(''a'', 0, 1), (''b'', 1, 2), (''c'', 2, 3)] nothing_open) = Inl ClipError \<and>
   attempted (snd (split_video_into_words
          (encoder_failing_on ''data/wasl_processed/videos/v1_b.mp4'')
          (WASLProcessor ''data/wasl_processed'') v1_mp4
          [(''a'', 0, 1), (''b'', 1, 2), (''c'', 2, 3)] nothing_open)) = [''a'', ''b''] \<and>
   written (snd (split_video_into_words
          (encoder_failing_on ''data/wasl_processed/videos/v1_b.mp4'')
          (WASLProcessor ''data/wasl_processed'') v1_mp4
          [(''a'', 0, 1), (''b'', 1, 2), (''c'', 2, 3)] nothing_open)) =
     [''data/wasl_processed/videos/v1_a.mp4'']"
  by (simp add: split_video_into_words_def encoder_failing_on_def WASLProcessor_def v1_mp4_def
      nothing_open_def slash_def str_def)

text \<open>
  Claim C4 says that the handle of the source video is released on every exit path.
  The code calls \<^verbatim>\<open>video.close()\<close> on the normal path only: when the clip of the one
  word \<^verbatim>\<open>hi\<close> fails, the function raises and the video is still open.
\<close>

theorem handle_leaks_when_a_clip_fails:
  "fst (split_video_into_words
          (encoder_failing_on ''data/wasl_processed/videos/v1_hi.mp4'')
          (WASLProcessor ''data/wasl_processed'') v1_mp4 [(''hi'', 0, 1)] nothing_open) = Inl ClipError \<and>
   open_videos (snd (split_video_into_words
          (encoder_failing_on ''data/wasl_processed/videos/v1_hi.mp4'')
          (WASLProcessor ''data/wasl_processed'') v1_mp4 [(''hi'', 0, 1)] nothing_open)) =
     [''data/wasl_processed/videos/v1.mp4'']"
  by (simp add: split_video_into_words_def encoder_failing_on_def WASLProcessor_def v1_mp4_def
      nothing_open_def slash_def str_def)

theorem segmentation_stops_at_first_failure_witness:
  "fst (split_video_into_words
          (encoder_failing_on ''data/wasl_processed/videos/v1_b.mp4'')
          (WASLProcessor ''data/wasl_processed'') v1_mp4 [(''a'', 0, 1)] nothing_open) =
     Inr [(''a'', ''data/wasl_processed/videos/v1_a.mp4'')] \<and>
   fst (split_video_into_words
          (encoder_failing_on ''data/wasl_processed/videos/v1_b.mp4'')
          (WASLProcessor ''data/wasl_processed'') v1_mp4
          ([(''a'', 0, 1)] @ (''b'', 1, 2) # [(''c'', 2, 3)]) nothing_open) = Inl ClipError \<and>
   attempted (snd (split_video_into_words
          (encoder_failing_on ''data/wasl_processed/videos/v1_b.mp4'')
          (WASLProcessor ''data/wasl_processed'') v1_mp4
          ([(''a'', 0, 1)] @ (''b'', 1, 2) # [(''c'', 2, 3)]) nothing_open)) = [''a'', ''b'']"
proof -
  let ?mp = "encoder_failing_on ''data/wasl_processed/videos/v1_b.mp4''"
  let ?self = "WASLProcessor ''data/wasl_processed''"
  have opens: "VideoFileClip ?mp (str v1_mp4) = None"
    by (simp add: encoder_failing_on_def)
  have before: "list_all (\<lambda>item. clip_raises ?mp ?self v1_mp4 item = None) [(''a'', 0, 1)]"
    by (simp add: clip_raises_def clip_output_path_def encoder_failing_on_def WASLProcessor_def
        v1_mp4_def slash_def)
  have fails: "clip_raises ?mp ?self v1_mp4 (''b'', 1, 2) = Some ClipError"
    by (simp add: clip_raises_def clip_output_path_def encoder_failing_on_def WASLProcessor_def
        v1_mp4_def slash_def)
  from segmentation_stops_at_first_failure
    [OF opens before, of nothing_open "(''b'', 1, 2)" ClipError "[(''c'', 2, 3)]"] fails
  show ?thesis
    by (simp add: clip_of_def clip_output_path_def WASLProcessor_def v1_mp4_def slash_def
        nothing_open_def)
qed

section \<open>The join of poses to words\<close>

lemma join_loop_garbled:
  "list_ex (\<lambda>entry. pose_files (pose_file_of self entry) = Garbled) metadata \<Longrightarrow>
   join_loop self pose_files metadata mapping = Inl JSONDecodeError"
  by (induction metadata arbitrary: mapping)
     (auto simp: pose_file_of_def Let_def split: file_state.splits)

lemma join_loop_parses:
  "\<not> list_ex (\<lambda>entry. pose_files (pose_file_of self entry) = Garbled) metadata \<Longrightarrow>
   \<exists>mapping'. join_loop self pose_files metadata mapping = Inr mapping'"
  by (induction metadata arbitrary: mapping)
     (auto simp: pose_file_of_def Let_def split: file_state.splits)

lemma join_loop_skips_missing:
  "join_loop self pose_files metadata mapping =
   join_loop self pose_files
     (filter (\<lambda>entry. pose_files (pose_file_of self entry) \<noteq> Missing) metadata) mapping"
  by (induction metadata arbitrary: mapping)
     (auto simp: pose_file_of_def Let_def split: file_state.splits)

lemma join_loop_map_of:
  "join_loop self pose_files metadata mapping = Inr mapping' \<Longrightarrow>
   map_of mapping' w =
     (case filter (\<lambda>entry. word entry = w \<and> pose_files (pose_file_of self entry) \<noteq> Missing)
             metadata of
        [] \<Rightarrow> map_of mapping w
      | matches \<Rightarrow>
          (case pose_files (pose_file_of self (last matches)) of
             Holds pose_data \<Rightarrow> Some pose_data
           | _ \<Rightarrow> None))"
proof (induction metadata arbitrary: mapping)
  case Nil
  then show ?case by simp
next
  case (Cons entry rest)
  show ?case
  proof (cases "pose_files (pose_file_of self entry)")
    case Missing
    with Cons.prems have "join_loop self pose_files rest mapping = Inr mapping'"
      by (simp add: pose_file_of_def)
    from Cons.IH [OF this] Missing show ?thesis by simp
  next
    case Garbled
    with Cons.prems show ?thesis by (simp add: pose_file_of_def)
  next
    case (Holds pose_data)
    with Cons.prems have
      "join_loop self pose_files rest (AList.update (word entry) pose_data mapping) = Inr mapping'"
      by (simp add: pose_file_of_def)
    from Cons.IH [OF this] Holds show ?thesis
      by (simp add: update_conv' split: list.splits)
  qed
qed

text \<open>
  Claim C5, as the code has it. \<^verbatim>\<open>create_word_pose_mapping\<close> fails exactly in two
  cases: the pose file of some metadata entry exists and is not parseable as JSON
  (\<^verbatim>\<open>json.load\<close> raises and nothing is written), or every pose file that exists
  parses and the destination cannot be written.
\<close>

theorem join_fails_on_unparseable_pose:
  "(list_ex (\<lambda>entry. pose_files (pose_file_of self entry) = Garbled) metadata \<longrightarrow>
      create_word_pose_mapping self pose_files mapping_writable metadata = Inl JSONDecodeError) \<and>
   (\<not> list_ex (\<lambda>entry. pose_files (pose_file_of self entry) = Garbled) metadata \<longrightarrow>
      (if mapping_writable
       then \<exists>mapping. create_word_pose_mapping self pose_files mapping_writable metadata = Inr mapping
       else create_word_pose_mapping self pose_files mapping_writable metadata = Inl OSError))"
proof (cases "list_ex (\<lambda>entry. pose_files (pose_file_of self entry) = Garbled) metadata")
  case True
  then show ?thesis
    by (simp add: create_word_pose_mapping_def join_loop_garbled)
next
  case False
  from join_loop_parses [OF this, of "[]"] obtain mapping
    where "join_loop self pose_files metadata [] = Inr mapping" by blast
  with False show ?thesis
    by (simp add: create_word_pose_mapping_def)
qed

theorem join_fails_on_unparseable_pose_witness:
  "create_word_pose_mapping (WASLProcessor ''data/wasl_processed'')
     (only_file ''data/wasl_processed/poses/v2.json'' (Garbled :: nat file_state)) True
     [\<lparr>video_id = ''v1'', word = ''hi'', start_time = 0, end_time = 1\<rparr>,
      \<lparr>video_id = ''v2'', word = ''dog'', start_time = 1, end_time = 3\<rparr>] = Inl JSONDecodeError \<and>
   create_word_pose_mapping (WASLProcessor ''data/wasl_processed'')
     (only_file ''data/wasl_processed/poses/v2.json'' (Holds (7 :: nat))) False
     [\<lparr>video_id = ''v1'', word = ''hi'', start_time = 0, end_time = 1\<rparr>,
      \<lparr>video_id = ''v2'', word = ''dog'', start_time = 1, end_time = 3\<rparr>] = Inl OSError"
  using join_fails_on_unparseable_pose
    [of "only_file ''data/wasl_processed/poses/v2.json'' (Garbled :: nat file_state)"
        "WASLProcessor ''data/wasl_processed''"
        "[\<lparr>video_id = ''v1'', word = ''hi'', start_time = 0, end_time = 1\<rparr>,
          \<lparr>video_id = ''v2'', word = ''dog'', start_time = 1, end_time = 3\<rparr>]" True]
    join_fails_on_unparseable_pose
    [of "only_file ''data/wasl_processed/poses/v2.json'' (Holds (7 :: nat))"
        "WASLProcessor ''data/wasl_processed''"
        "[\<lparr>video_id = ''v1'', word = ''hi'', start_time = 0, end_time = 1\<rparr>,
          \<lparr>video_id = ''v2'', word = ''dog'', start_time = 1, end_time = 3\<rparr>]" False]
  by (simp add: only_file_def pose_file_of_def WASLProcessor_def slash_def)

text \<open>
  Claim C5 as the specification states it (the join fails only when the destination
  cannot be written; an unparseable pose file is skipped with a warning) fails: with
  a writable destination and one entry whose pose file is not JSON, the join raises.
\<close>

theorem unparseable_pose_aborts_join:
  "create_word_pose_mapping (WASLProcessor ''data/wasl_processed'')
     (only_file ''data/wasl_processed/poses/v1.json'' (Garbled :: nat file_state)) True
     [\<lparr>video_id = ''v1'', word = ''hi'', start_time = 0, end_time = 1\<rparr>] = Inl JSONDecodeError"
  by (simp add: create_word_pose_mapping_def only_file_def WASLProcessor_def slash_def)

text \<open>
  Claim C7, as the code has it. A metadata entry whose pose file does not exist
  contributes nothing to the join: the outcome is that of the metadata without such
  entries (no binding, no placeholder, no error). A word of the final mapping is
  bound to the pose data of the last entry that carries it and has a pose file, so
  the word of an entry without a pose file is absent unless another entry with the
  same word has one.
\<close>

theorem missing_pose_contributes_nothing:
  "create_word_pose_mapping self pose_files mapping_writable metadata =
     create_word_pose_mapping self pose_files mapping_writable
       (filter (\<lambda>entry. pose_files (pose_file_of self entry) \<noteq> Missing) metadata) \<and>
   (create_word_pose_mapping self pose_files mapping_writable metadata = Inr mapping \<longrightarrow>
      (\<forall>word'. map_of mapping word' = last_pose self pose_files metadata word'))"
proof
  show "create_word_pose_mapping self pose_files mapping_writable metadata =
     create_word_pose_mapping self pose_files mapping_writable
       (filter (\<lambda>entry. pose_files (pose_file_of self entry) \<noteq> Missing) metadata)"
    using join_loop_skips_missing [of self pose_files metadata "[]"]
    by (simp add: create_word_pose_mapping_def)
next
  show "create_word_pose_mapping self pose_files mapping_writable metadata = Inr mapping \<longrightarrow>
      (\<forall>word'. map_of mapping word' = last_pose self pose_files metadata word')"
  proof (intro impI allI)
    fix word'
    assume "create_word_pose_mapping self pose_files mapping_writable metadata = Inr mapping"
    then have "join_loop self pose_files metadata [] = Inr mapping"
      by (simp add: create_word_pose_mapping_def split: sum.splits if_splits)
    from join_loop_map_of [OF this, of word']
    show "map_of mapping word' = last_pose self pose_files metadata word'"
      by (simp add: last_pose_def split: list.splits)
  qed
qed

theorem missing_pose_contributes_nothing_witness:
  "create_word_pose_mapping (WASLProcessor ''data/wasl_processed'')
     (only_file ''data/wasl_processed/poses/v2.json'' (Holds (7 :: nat))) True
     [\<lparr>video_id = ''v1'', word = ''hi'', start_time = 0, end_time = 1\<rparr>,
      \<lparr>video_id = ''v2'', word = ''dog'', start_time = 1, end_time = 3\<rparr>] = Inr [(''dog'', 7)] \<and>
   map_of [(''dog'', 7 :: nat)] ''hi'' = None \<and>
   last_pose (WASLProcessor ''data/wasl_processed'')
     (only_file ''data/wasl_processed/poses/v2.json'' (Holds (7 :: nat)))
     [\<lparr>video_id = ''v1'', word = ''hi'', start_time = 0, end_time = 1\<rparr>,
      \<lparr>video_id = ''v2'', word = ''dog'', start_time = 1, end_time = 3\<rparr>] ''hi'' = None"
proof -
  let ?self = "WASLProcessor ''data/wasl_processed''"
  let ?pf = "only_file ''data/wasl_processed/poses/v2.json'' (Holds (7 :: nat))"
  let ?md = "[\<lparr>video_id = ''v1'', word = ''hi'', start_time = 0, end_time = 1\<rparr>,
      \<lparr>video_id = ''v2'', word = ''dog'', start_time = 1, end_time = 3\<rparr>]"
  have run: "create_word_pose_mapping ?self ?pf True ?md = Inr [(''dog'', 7)]"
    by (simp add: create_word_pose_mapping_def only_file_def WASLProcessor_def slash_def)
  from missing_pose_contributes_nothing [of ?self ?pf True ?md "[(''dog'', 7)]"] run
  have "map_of [(''dog'', 7 :: nat)] ''hi'' = last_pose ?self ?pf ?md ''hi''"
    by blast
  with run show ?thesis by simp
qed

text \<open>
  Claim C7 as the specification states it (the word of every entry whose pose file
  does not exist is absent from the final mapping) fails when the word is shared:
  the pose file of the entry of video \<^verbatim>\<open>v1\<close> is missing, yet its word \<^verbatim>\<open>hi\<close> is in
  the mapping, bound through the entry of video \<^verbatim>\<open>v2\<close>.
\<close>

theorem shared_word_stays_in_mapping:
  "only_file ''data/wasl_processed/poses/v2.json'' (Holds (7 :: nat))
     (pose_file_of (WASLProcessor ''data/wasl_processed'')
        \<lparr>video_id = ''v1'', word = ''hi'', start_time = 0, end_time = 1\<rparr>) = Missing \<and>
   create_word_pose_mapping (WASLProcessor ''data/wasl_processed'')
     (only_file ''data/wasl_processed/poses/v2.json'' (Holds (7 :: nat))) True
     [\<lparr>video_id = ''v1'', word = ''hi'', start_time = 0, end_time = 1\<rparr>,
      \<lparr>video_id = ''v2'', word = ''hi'', start_time = 1, end_time = 3\<rparr>] = Inr [(''hi'', 7)]"
  by (simp add: create_word_pose_mapping_def only_file_def pose_file_of_def WASLProcessor_def
      slash_def)

section \<open>Video acquisition\<close>

lemma fetched_download_entry:
  "fetched (download_entry ydl self w entry) =
     fetched w @ (if mp4_of self entry \<in> files w then [] else [youtube_url entry])"
  by (simp add: download_entry_def mp4_of_def youtube_url_def Let_def
      split: prod.splits option.splits)

lemma download_entry_present:
  "mp4_of self entry \<in> files w \<Longrightarrow> download_entry ydl self w entry = w"
  by (simp add: download_entry_def mp4_of_def Let_def)

lemma download_loop_append:
  "download_loop ydl self w (xs @ ys) = download_loop ydl self (download_loop ydl self w xs) ys"
  by (induction xs arbitrary: w) simp_all

lemma other_extension_differs:
  "ext \<noteq> ''mp4'' \<Longrightarrow> slash d (v @ ''.'' @ ext) \<noteq> slash d (v @ ''.mp4'')"
  by (simp add: slash_def)

text \<open>
  Claim C9. For every metadata entry that the batch download processes, the
  external fetch is invoked exactly when \<^verbatim>\<open>videos_dir/{video_id}.mp4\<close> is missing at
  that moment; a file of the same video under any other extension does not keep the
  fetch from being invoked.
\<close>

theorem fetch_exactly_when_mp4_missing:
  "fetched (download_loop ydl self w (before @ [entry])) =
     fetched (download_loop ydl self w before) @
       (if mp4_of self entry \<in> files (download_loop ydl self w before) then []
        else [youtube_url entry]) \<and>
   (ext \<noteq> ''mp4'' \<longrightarrow> mp4_of self entry \<notin> files w \<longrightarrow>
      fetched (download_entry ydl self
                 (w\<lparr> files := insert (slash (videos_dir self) (video_id entry @ ''.'' @ ext)) (files w) \<rparr>)
                 entry) = fetched w @ [youtube_url entry])"
proof
  show "fetched (download_loop ydl self w (before @ [entry])) =
     fetched (download_loop ydl self w before) @
       (if mp4_of self entry \<in> files (download_loop ydl self w before) then []
        else [youtube_url entry])"
    by (simp add: download_loop_append fetched_download_entry)
next
  show "ext \<noteq> ''mp4'' \<longrightarrow> mp4_of self entry \<notin> files w \<longrightarrow>
      fetched (download_entry ydl self
                 (w\<lparr> files := insert (slash (videos_dir self) (video_id entry @ ''.'' @ ext)) (files w) \<rparr>)
                 entry) = fetched w @ [youtube_url entry]"
    using other_extension_differs [of ext "videos_dir self" "video_id entry"]
    by (auto simp: fetched_download_entry mp4_of_def)
qed

theorem fetch_exactly_when_mp4_missing_witness:
  "fetched (download_loop (saving_as ''data/wasl_processed/videos/v1.webm'')
              (WASLProcessor ''data/wasl_processed'') empty_disk
              ([\<lparr>video_id = ''v1'', word = ''hello'', start_time = 0, end_time = 1\<rparr>] @
               [\<lparr>video_id = ''v1'', word = ''world'', start_time = 1, end_time = 2\<rparr>])) =
     [''https://www.youtube.com/watch?v=v1'', ''https://www.youtube.com/watch?v=v1''] \<and>
   fetched (download_entry (saving_as ''data/wasl_processed/videos/v1.webm'')
              (WASLProcessor ''data/wasl_processed'')
              (empty_disk\<lparr> files := insert
                  (slash (videos_dir (WASLProcessor ''data/wasl_processed'')) (''v1'' @ ''.'' @ ''webm''))
                  (files empty_disk) \<rparr>)
              \<lparr>video_id = ''v1'', word = ''hello'', start_time = 0, end_time = 1\<rparr>) =
     [''https://www.youtube.com/watch?v=v1'']"
  using fetch_exactly_when_mp4_missing
    [of "saving_as ''data/wasl_processed/videos/v1.webm''" "WASLProcessor ''data/wasl_processed''"
        empty_disk "[\<lparr>video_id = ''v1'', word = ''hello'', start_time = 0, end_time = 1\<rparr>]"
        "\<lparr>video_id = ''v1'', word = ''world'', start_time = 1, end_time = 2\<rparr>" "''webm''"]
    fetch_exactly_when_mp4_missing
    [of "saving_as ''data/wasl_processed/videos/v1.webm''" "WASLProcessor ''data/wasl_processed''"
        empty_disk "[]"
        "\<lparr>video_id = ''v1'', word = ''hello'', start_time = 0, end_time = 1\<rparr>" "''webm''"]
  by (simp add: download_entry_def saving_as_def WASLProcessor_def empty_disk_def mp4_of_def
      youtube_url_def slash_def)

text \<open>
  Claim C8, as the code has it. When the file of the video is at the expected
  location (\<^verbatim>\<open>videos_dir/{video_id}.mp4\<close>, and \<^verbatim>\<open>data/raw_videos/{gloss}_{instance_id}.mp4\<close>
  in \<^verbatim>\<open>get_WLASL.py\<close>), acquiring it fetches nothing and changes nothing; and
  acquiring the same video twice invokes the fetch at most once whenever the first
  acquisition has left that file in place.
\<close>

theorem acquisition_idempotent_once_mp4_exists:
  "(mp4_of self entry \<in> files w \<longrightarrow> download_entry ydl self w entry = w) \<and>
   (mp4_of self entry \<in> files (download_entry ydl self w entry) \<longrightarrow>
      download_entry ydl self (download_entry ydl self w entry) entry =
        download_entry ydl self w entry \<and>
      length (fetched (download_entry ydl self (download_entry ydl self w entry) entry))
        \<le> length (fetched w) + 1) \<and>
   (out_path_of sample \<in> files w \<longrightarrow> fetch_sample urlretrieve w sample = w) \<and>
   (out_path_of sample \<in> files (fetch_sample urlretrieve w sample) \<longrightarrow>
      fetch_sample urlretrieve (fetch_sample urlretrieve w sample) sample =
        fetch_sample urlretrieve w sample \<and>
      length (fetched (fetch_sample urlretrieve (fetch_sample urlretrieve w sample) sample))
        \<le> length (fetched w) + 1)"
proof -
  have sample_present:
    "\<And>w. out_path_of sample \<in> files w \<Longrightarrow> fetch_sample urlretrieve w sample = w"
    by (simp add: fetch_sample_def out_path_of_def Let_def)
  have sample_once: "length (fetched (fetch_sample urlretrieve w sample)) \<le> length (fetched w) + 1"
    by (simp add: fetch_sample_def Let_def split: prod.splits)
  have entry_once: "length (fetched (download_entry ydl self w entry)) \<le> length (fetched w) + 1"
    by (simp add: fetched_download_entry)
  show ?thesis
    using sample_present sample_once entry_once
    by (simp add: download_entry_present)
qed

theorem acquisition_idempotent_once_mp4_exists_witness:
  "length (fetched (download_entry (saving_as ''data/wasl_processed/videos/v1.mp4'')
      (WASLProcessor ''data/wasl_processed'')
      (download_entry (saving_as ''data/wasl_processed/videos/v1.mp4'')
         (WASLProcessor ''data/wasl_processed'') empty_disk
         \<lparr>video_id = ''v1'', word = ''hello'', start_time = 0, end_time = 1\<rparr>)
      \<lparr>video_id = ''v1'', word = ''hello'', start_time = 0, end_time = 1\<rparr>)) \<le> 1 \<and>
   fetch_sample (saving_as ''elsewhere'')
     (empty_disk\<lparr> files := {''data/raw_videos/book_7.mp4''} \<rparr>)
     \<lparr>gloss = ''book'', video = ''http://example.org/7.mp4'', instance_id = ''7''\<rparr> =
   empty_disk\<lparr> files := {''data/raw_videos/book_7.mp4''} \<rparr>"
proof -
  let ?ydl = "saving_as ''data/wasl_processed/videos/v1.mp4''"
  let ?self = "WASLProcessor ''data/wasl_processed''"
  let ?e = "\<lparr>video_id = ''v1'', word = ''hello'', start_time = 0, end_time = 1\<rparr>"
  let ?s = "\<lparr>gloss = ''book'', video = ''http://example.org/7.mp4'', instance_id = ''7''\<rparr>"
  let ?w = "empty_disk\<lparr> files := {''data/raw_videos/book_7.mp4''} \<rparr>"
  have saved: "mp4_of ?self ?e \<in> files (download_entry ?ydl ?self empty_disk ?e)"
    by (simp add: download_entry_def saving_as_def mp4_of_def WASLProcessor_def slash_def
        empty_disk_def)
  have there: "out_path_of ?s \<in> files ?w"
    by (simp add: out_path_of_def)
  from acquisition_idempotent_once_mp4_exists [of ?self ?e empty_disk ?ydl ?s "saving_as ''elsewhere''"]
    saved
  have a: "length (fetched (download_entry ?ydl ?self (download_entry ?ydl ?self empty_disk ?e) ?e))
          \<le> length (fetched empty_disk) + 1"
    by blast
  from acquisition_idempotent_once_mp4_exists [of ?self ?e ?w ?ydl ?s "saving_as ''elsewhere''"] there
  have b: "fetch_sample (saving_as ''elsewhere'') ?w ?s = ?w"
    by blast
  from a b show ?thesis by (simp add: empty_disk_def)
qed

text \<open>
  Claim C8 as the specification states it (acquiring the same video twice triggers
  the fetch at most once) fails: when the download of \<^verbatim>\<open>v1\<close> succeeds and saves
  \<^verbatim>\<open>v1.webm\<close>, as the output template allows, a batch with two entries of \<^verbatim>\<open>v1\<close>
  invokes the fetch twice.
\<close>

theorem refetch_when_saved_under_other_extension:
  "snd (download_wasl_videos (saving_as ''data/wasl_processed/videos/v1.webm'')
          (WASLProcessor ''data/wasl_processed'')
          (Holds [\<lparr>video_id = ''v1'', word = ''hello'', start_time = 0, end_time = 1\<rparr>,
                  \<lparr>video_id = ''v1'', word = ''world'', start_time = 1, end_time = 2\<rparr>])
          empty_disk) =
     \<lparr> files = {''data/wasl_processed/videos/v1.webm''},
       fetched = [''https://www.youtube.com/watch?v=v1'', ''https://www.youtube.com/watch?v=v1''],
       net_log = [] \<rparr>"
  by (simp add: download_wasl_videos_def download_entry_def saving_as_def WASLProcessor_def
      empty_disk_def slash_def)

section \<open>Pose extraction\<close>

lemma process_with_openpose_exits:
  "os (openpose_cmd self video_path) = Exited status \<Longrightarrow>
   process_with_openpose os self video_path lg =
     (Inr (),
      lg @ [if status = 0 then Processed (str video_path)
            else ErrorProcessing (str video_path) (CalledProcessError status)])"
  by (simp add: process_with_openpose_def subprocess_run_check_def)

lemma process_with_openpose_not_found:
  "os (openpose_cmd self video_path) = NotStarted FileNotFoundError \<Longrightarrow>
   process_with_openpose os self video_path lg = (Inl FileNotFoundError, lg)"
  by (simp add: process_with_openpose_def subprocess_run_check_def)

lemma openpose_clips_all_exit:
  "list_all (exits os self) clips \<Longrightarrow>
   fst (openpose_clips os self clips launched lg) = Inr () \<and>
   fst (snd (openpose_clips os self clips launched lg)) = launched @ map snd clips"
proof (induction clips arbitrary: launched lg)
  case Nil
  show ?case by simp
next
  case (Cons clip rest)
  obtain w p where clip: "clip = (w, p)" by (cases clip) auto
  from Cons.prems obtain status where st: "os (openpose_cmd self p) = Exited status"
    by (auto simp: clip exits_def split: launch.splits)
  from Cons.prems have rest: "list_all (exits os self) rest" by simp
  show ?case
    by (simp add: clip process_with_openpose_exits [of os self p status, OF st] Cons.IH [OF rest])
qed

lemma openpose_clips_stops:
  "list_all (exits os self) before \<Longrightarrow>
   os (openpose_cmd self (snd clip)) = NotStarted FileNotFoundError \<Longrightarrow>
   fst (openpose_clips os self (before @ clip # rest) launched lg) = Inl FileNotFoundError \<and>
   fst (snd (openpose_clips os self (before @ clip # rest) launched lg)) =
     launched @ map snd before @ [snd clip]"
proof (induction before arbitrary: launched lg)
  case Nil
  obtain w p where clip: "clip = (w, p)" by (cases clip) auto
  from Nil.prems(2) show ?case
    by (simp add: clip process_with_openpose_not_found)
next
  case (Cons first before)
  obtain w p where first: "first = (w, p)" by (cases first) auto
  from Cons.prems(1) obtain status where st: "os (openpose_cmd self p) = Exited status"
    by (auto simp: first exits_def split: launch.splits)
  from Cons.prems(1) have before: "list_all (exits os self) before" by simp
  show ?case
    by (simp add: first process_with_openpose_exits [of os self p status, OF st] Cons.IH [OF before Cons.prems(2)])
qed

text \<open>
  Claim C10. \<^verbatim>\<open>process_with_openpose\<close> isolates only the failures that are a
  non-zero exit status: the \<^verbatim>\<open>CalledProcessError\<close> is caught and logged and the
  loop over the clips goes on to the end; when the executable cannot be started,
  the \<^verbatim>\<open>FileNotFoundError\<close> leaves the function and the loop, and the clips after
  that one are not processed.
\<close>

theorem openpose_isolates_exit_status_only:
  "(os (openpose_cmd self video_path) = Exited status \<longrightarrow> status \<noteq> 0 \<longrightarrow>
      process_with_openpose os self video_path lg =
        (Inr (), lg @ [ErrorProcessing (str video_path) (CalledProcessError status)])) \<and>
   (os (openpose_cmd self video_path) = NotStarted FileNotFoundError \<longrightarrow>
      process_with_openpose os self video_path lg = (Inl FileNotFoundError, lg)) \<and>
   (list_all (exits os self) before \<longrightarrow>
      fst (openpose_clips os self before launched lg) = Inr () \<and>
      fst (snd (openpose_clips os self before launched lg)) = launched @ map snd before) \<and>
   (list_all (exits os self) before \<longrightarrow>
    os (openpose_cmd self (snd clip)) = NotStarted FileNotFoundError \<longrightarrow>
      fst (openpose_clips os self (before @ clip # rest) launched lg) = Inl FileNotFoundError \<and>
      fst (snd (openpose_clips os self (before @ clip # rest) launched lg)) =
        launched @ map snd before @ [snd clip])"
  using openpose_clips_all_exit [of os self before launched lg]
    openpose_clips_stops [of os self before clip rest launched lg]
  by (simp add: process_with_openpose_exits process_with_openpose_not_found)

theorem openpose_isolates_exit_status_only_witness:
  "process_with_openpose (binary_missing_for ''data/wasl_processed/videos/v1_b.mp4'')
     (WASLProcessor ''data/wasl_processed'') (clip_path ''v1_a'') [] =
     (Inr (), [ErrorProcessing ''data/wasl_processed/videos/v1_a.mp4'' (CalledProcessError 1)]) \<and>
   process_with_openpose (binary_missing_for ''data/wasl_processed/videos/v1_b.mp4'')
     (WASLProcessor ''data/wasl_processed'') (clip_path ''v1_b'') [] = (Inl FileNotFoundError, []) \<and>
   fst (openpose_clips (binary_missing_for ''data/wasl_processed/videos/v1_b.mp4'')
     (WASLProcessor ''data/wasl_processed'')
     ([(''a'', clip_path ''v1_a'')] @ (''b'', clip_path ''v1_b'') # [(''c'', clip_path ''v1_c'')])
     [] []) = Inl FileNotFoundError \<and>
   fst (snd (openpose_clips (binary_missing_for ''data/wasl_processed/videos/v1_b.mp4'')
     (WASLProcessor ''data/wasl_processed'')
     ([(''a'', clip_path ''v1_a'')] @ (''b'', clip_path ''v1_b'') # [(''c'', clip_path ''v1_c'')])
     [] [])) = [clip_path ''v1_a'', clip_path ''v1_b''] \<and>
   fst (openpose_clips (binary_missing_for ''data/wasl_processed/videos/v1_b.mp4'')
     (WASLProcessor ''data/wasl_processed'') [(''a'', clip_path ''v1_a'')] [] []) = Inr ()"
proof -
  let ?os = "binary_missing_for ''data/wasl_processed/videos/v1_b.mp4''"
  let ?self = "WASLProcessor ''data/wasl_processed''"
  have a: "?os (openpose_cmd ?self (clip_path ''v1_a'')) = Exited 1"
    by (simp add: binary_missing_for_def openpose_cmd_def clip_path_def str_def slash_def
        WASLProcessor_def)
  have b: "?os (openpose_cmd ?self (clip_path ''v1_b'')) = NotStarted FileNotFoundError"
    by (simp add: binary_missing_for_def openpose_cmd_def clip_path_def str_def slash_def
        WASLProcessor_def)
  have before: "list_all (exits ?os ?self) [(''a'', clip_path ''v1_a'')]"
    by (simp add: exits_def a)
  have sa: "str (clip_path ''v1_a'') = ''data/wasl_processed/videos/v1_a.mp4''"
    by (simp add: clip_path_def str_def slash_def)
  from openpose_isolates_exit_status_only
    [of ?os ?self "clip_path ''v1_a''" 1 "[]" "[(''a'', clip_path ''v1_a'')]" "[]"
        "(''b'', clip_path ''v1_b'')" "[(''c'', clip_path ''v1_c'')]"] a
  have one: "process_with_openpose ?os ?self (clip_path ''v1_a'') [] =
     (Inr (), [ErrorProcessing (str (clip_path ''v1_a'')) (CalledProcessError 1)])"
    by simp
  from openpose_isolates_exit_status_only
    [of ?os ?self "clip_path ''v1_b''" 1 "[]" "[(''a'', clip_path ''v1_a'')]" "[]"
        "(''b'', clip_path ''v1_b'')" "[(''c'', clip_path ''v1_c'')]"] b before
  have two: "process_with_openpose ?os ?self (clip_path ''v1_b'') [] = (Inl FileNotFoundError, [])"
    and three: "fst (openpose_clips ?os ?self [(''a'', clip_path ''v1_a'')] [] []) = Inr ()"
    and four: "fst (openpose_clips ?os ?self
        ([(''a'', clip_path ''v1_a'')] @ (''b'', clip_path ''v1_b'') # [(''c'', clip_path ''v1_c'')])
        [] []) = Inl FileNotFoundError"
    and five: "fst (snd (openpose_clips ?os ?self
        ([(''a'', clip_path ''v1_a'')] @ (''b'', clip_path ''v1_b'') # [(''c'', clip_path ''v1_c'')])
        [] [])) = [] @ map snd [(''a'', clip_path ''v1_a'')] @ [snd (''b'', clip_path ''v1_b'')]"
    by simp_all
  from one two three four five sa show ?thesis by simp
qed

end
